theory Spec2Isabelle
  imports Main
begin

section \<open>Ingredient models: normalized shadow columns and table arguments\<close>

text \<open>
  A shallow embedding of \<^verbatim>\<open>mealie/db/models/recipe/ingredient.py\<close>: the three
  mapped classes \<^verbatim>\<open>IngredientUnitModel\<close>, \<^verbatim>\<open>IngredientFoodModel\<close> and
  \<^verbatim>\<open>RecipeIngredientModel\<close>, the bodies of their \<^verbatim>\<open>__init__\<close> methods and the five
  attribute \<^verbatim>\<open>set\<close> listeners.

  An instance is a record of its scalar columns (\<^verbatim>\<open>str | None\<close> is \<open>string option\<close>);
  the primary keys, the float column \<^verbatim>\<open>quantity\<close> and the relationship attributes take no
  part in normalization or in the table arguments and are left out. A method that mutates
  \<^verbatim>\<open>self\<close> or \<^verbatim>\<open>target\<close> takes the instance and returns the updated one.

  The class method \<^verbatim>\<open>normalize\<close> is inherited from a base class whose source is not part
  of the file; every function that calls it takes it as the parameter \<open>normalize_fn\<close>.
\<close>

subsection \<open>Data\<close>

type_synonym guid = nat

text \<open>The session, as far as the constructors read it: \<^verbatim>\<open>session.get_bind().name\<close>.\<close>

record session =
  bind_name :: string

text \<open>
  The entries of \<^verbatim>\<open>__table_args__\<close>:
  \<^verbatim>\<open>sa.UniqueConstraint(*columns, name=...)\<close> and
  \<^verbatim>\<open>sa.Index(name, *columns, unique=..., postgresql_using=..., postgresql_ops={...})\<close>,
  the two keyword arguments absent (\<open>None\<close>, \<open>[]\<close>) where the source does not give them.
\<close>

datatype table_arg =
    UniqueConstraint "string list" string
  | Index string "string list" bool "string option" "(string \<times> string) list"

record IngredientUnitModel =
  unit_group_id :: "guid option"
  unit_name :: "string option"
  unit_description :: "string option"
  unit_abbreviation :: "string option"
  unit_use_abbreviation :: "bool option"
  unit_fraction :: "bool option"
  unit_name_normalized :: "string option"
  unit_abbreviation_normalized :: "string option"
  unit_table_args :: "table_arg list"

record IngredientFoodModel =
  food_group_id :: "guid option"
  food_name :: "string option"
  food_description :: "string option"
  food_label_id :: "guid option"
  food_name_normalized :: "string option"
  food_table_args :: "table_arg list"

text \<open>
  \<open>ing_orginal_text\<close> is not a column: it is the plain Python attribute that the
  assignment \<^verbatim>\<open>self.orginal_text = ...\<close> in \<^verbatim>\<open>RecipeIngredientModel.__init__\<close> creates
  on the instance (\<open>None\<close> while it does not exist).
\<close>

record RecipeIngredientModel =
  ing_position :: "int option"
  ing_recipe_id :: "guid option"
  ing_title :: "string option"
  ing_note :: "string option"
  ing_unit_id :: "guid option"
  ing_food_id :: "guid option"
  ing_original_text :: "string option"
  ing_reference_id :: "guid option"
  ing_note_normalized :: "string option"
  ing_original_text_normalized :: "string option"
  ing_orginal_text :: "string option"
  ing_table_args :: "table_arg list"

definition IngredientUnitModel_tablename :: string where
  "IngredientUnitModel_tablename = ''ingredient_units''"

definition IngredientFoodModel_tablename :: string where
  "IngredientFoodModel_tablename = ''ingredient_foods''"

definition RecipeIngredientModel_tablename :: string where
  "RecipeIngredientModel_tablename = ''recipes_ingredients''"

subsection \<open>The \<^verbatim>\<open>set\<close> listeners\<close>

text \<open>
  Each listener is registered with \<^verbatim>\<open>@event.listens_for(<Class>.<attribute>, "set")\<close>
  and writes the paired normalized column of \<open>target\<close>. The arguments \<^verbatim>\<open>oldvalue\<close> and
  \<^verbatim>\<open>initiator\<close> are not read.
\<close>

definition receive_unit_name ::
  "(string \<Rightarrow> string) \<Rightarrow> IngredientUnitModel \<Rightarrow> string option \<Rightarrow> IngredientUnitModel" where
  "receive_unit_name normalize_fn target value =
     (case value of
        Some v \<Rightarrow> target\<lparr>unit_name_normalized := Some (normalize_fn v)\<rparr>
      | None \<Rightarrow> target\<lparr>unit_name_normalized := None\<rparr>)"

definition receive_unit_abbreviation ::
  "(string \<Rightarrow> string) \<Rightarrow> IngredientUnitModel \<Rightarrow> string option \<Rightarrow> IngredientUnitModel" where
  "receive_unit_abbreviation normalize_fn target value =
     (case value of
        Some v \<Rightarrow> target\<lparr>unit_abbreviation_normalized := Some (normalize_fn v)\<rparr>
      | None \<Rightarrow> target\<lparr>unit_abbreviation_normalized := None\<rparr>)"

definition receive_food_name ::
  "(string \<Rightarrow> string) \<Rightarrow> IngredientFoodModel \<Rightarrow> string option \<Rightarrow> IngredientFoodModel" where
  "receive_food_name normalize_fn target value =
     (case value of
        Some v \<Rightarrow> target\<lparr>food_name_normalized := Some (normalize_fn v)\<rparr>
      | None \<Rightarrow> target\<lparr>food_name_normalized := None\<rparr>)"

definition receive_ingredient_note ::
  "(string \<Rightarrow> string) \<Rightarrow> RecipeIngredientModel \<Rightarrow> string option \<Rightarrow> RecipeIngredientModel" where
  "receive_ingredient_note normalize_fn target value =
     (case value of
        Some v \<Rightarrow> target\<lparr>ing_note_normalized := Some (normalize_fn v)\<rparr>
      | None \<Rightarrow> target\<lparr>ing_note_normalized := None\<rparr>)"

definition receive_ingredient_original_text ::
  "(string \<Rightarrow> string) \<Rightarrow> RecipeIngredientModel \<Rightarrow> string option \<Rightarrow> RecipeIngredientModel" where
  "receive_ingredient_original_text normalize_fn target value =
     (case value of
        Some v \<Rightarrow> target\<lparr>ing_original_text_normalized := Some (normalize_fn v)\<rparr>
      | None \<Rightarrow> target\<lparr>ing_original_text_normalized := None\<rparr>)"

subsection \<open>Attribute assignment\<close>

text \<open>
  An assignment \<^verbatim>\<open>obj.attr = value\<close> to an attribute with a \<^verbatim>\<open>set\<close> listener runs the
  listener on the instance with the new value, synchronously, and then stores the value.
  The normalized columns and all other attributes have no listener: an assignment to one
  of them is the plain record update.
\<close>

definition set_unit_name ::
  "(string \<Rightarrow> string) \<Rightarrow> string option \<Rightarrow> IngredientUnitModel \<Rightarrow> IngredientUnitModel" where
  "set_unit_name normalize_fn value self =
     (receive_unit_name normalize_fn self value)\<lparr>unit_name := value\<rparr>"

definition set_unit_abbreviation ::
  "(string \<Rightarrow> string) \<Rightarrow> string option \<Rightarrow> IngredientUnitModel \<Rightarrow> IngredientUnitModel" where
  "set_unit_abbreviation normalize_fn value self =
     (receive_unit_abbreviation normalize_fn self value)\<lparr>unit_abbreviation := value\<rparr>"

definition set_food_name ::
  "(string \<Rightarrow> string) \<Rightarrow> string option \<Rightarrow> IngredientFoodModel \<Rightarrow> IngredientFoodModel" where
  "set_food_name normalize_fn value self =
     (receive_food_name normalize_fn self value)\<lparr>food_name := value\<rparr>"

definition set_ingredient_note ::
  "(string \<Rightarrow> string) \<Rightarrow> string option \<Rightarrow> RecipeIngredientModel \<Rightarrow> RecipeIngredientModel" where
  "set_ingredient_note normalize_fn value self =
     (receive_ingredient_note normalize_fn self value)\<lparr>ing_note := value\<rparr>"

definition set_ingredient_original_text ::
  "(string \<Rightarrow> string) \<Rightarrow> string option \<Rightarrow> RecipeIngredientModel \<Rightarrow> RecipeIngredientModel" where
  "set_ingredient_original_text normalize_fn value self =
     (receive_ingredient_original_text normalize_fn self value)\<lparr>ing_original_text := value\<rparr>"

subsection \<open>The bodies of the constructors\<close>

text \<open>
  \<^verbatim>\<open>IngredientUnitModel.__init__(self, session, name=None, abbreviation=None, **_)\<close>.
  The first conditional writes the normalized column of \<open>name\<close>; the second assigns the
  normalized text to the attribute \<^verbatim>\<open>abbreviation\<close> itself, an assignment that the
  listener of that attribute observes.
\<close>

definition IngredientUnitModel_init ::
  "(string \<Rightarrow> string) \<Rightarrow> session \<Rightarrow> string option \<Rightarrow> string option
     \<Rightarrow> IngredientUnitModel \<Rightarrow> IngredientUnitModel" where
  "IngredientUnitModel_init normalize_fn session name abbreviation self =
     (let self1 = (case name of
                     Some n \<Rightarrow> self\<lparr>unit_name_normalized := Some (normalize_fn n)\<rparr>
                   | None \<Rightarrow> self);
          self2 = (case abbreviation of
                     Some a \<Rightarrow> set_unit_abbreviation normalize_fn (Some (normalize_fn a)) self1
                   | None \<Rightarrow> self1);
          tableargs =
            [UniqueConstraint [''name'', ''group_id''] ''ingredient_units_name_group_id_key'',
             Index ''ix_ingredient_units_name_normalized'' [''name_normalized'']
               False None [],
             Index ''ix_ingredient_units_abbreviation_normalized'' [''abbreviation_normalized'']
               False None []];
          tableargs2 =
            (if bind_name session = ''postgresql''
             then tableargs @
               [Index ''ix_ingredient_units_name_normalized_gin'' [''name_normalized'']
                  False (Some ''gin'') [(''name_normalized'', ''gin_trgm_ops'')],
                Index ''ix_ingredient_units_abbreviation_normalized_gin''
                  [''abbreviation_normalized'']
                  False (Some ''gin'') [(''abbreviation_normalized'', ''gin_trgm_ops'')]]
             else tableargs)
      in self2\<lparr>unit_table_args := tableargs2\<rparr>)"

text \<open>\<^verbatim>\<open>IngredientFoodModel.__init__(self, session, name=None, **_)\<close>.\<close>

definition IngredientFoodModel_init ::
  "(string \<Rightarrow> string) \<Rightarrow> session \<Rightarrow> string option
     \<Rightarrow> IngredientFoodModel \<Rightarrow> IngredientFoodModel" where
  "IngredientFoodModel_init normalize_fn session name self =
     (let self1 = (case name of
                     Some n \<Rightarrow> self\<lparr>food_name_normalized := Some (normalize_fn n)\<rparr>
                   | None \<Rightarrow> self);
          tableargs =
            [UniqueConstraint [''name'', ''group_id''] ''ingredient_foods_name_group_id_key'',
             Index ''ix_ingredient_foods_name_normalized'' [''name_normalized'']
               False None []];
          tableargs2 =
            (if bind_name session = ''postgresql''
             then tableargs @
               [Index ''ix_ingredient_foods_name_normalized_gin'' [''name_normalized'']
                  False (Some ''gin'') [(''name_normalized'', ''gin_trgm_ops'')]]
             else tableargs)
      in self1\<lparr>food_table_args := tableargs2\<rparr>)"

text \<open>
  \<^verbatim>\<open>RecipeIngredientModel.__init__(self, session, note=None, orginal_text=None, **_)\<close>.
  The second parameter is spelled \<^verbatim>\<open>orginal_text\<close>, and the second conditional assigns to
  \<^verbatim>\<open>self.orginal_text\<close>, which is no mapped attribute and has no listener. The second
  trigram index names the column \<^verbatim>\<open>original_text\<close>.
\<close>

definition RecipeIngredientModel_init ::
  "(string \<Rightarrow> string) \<Rightarrow> session \<Rightarrow> string option \<Rightarrow> string option
     \<Rightarrow> RecipeIngredientModel \<Rightarrow> RecipeIngredientModel" where
  "RecipeIngredientModel_init normalize_fn session note orginal_text self =
     (let self1 = (case note of
                     Some n \<Rightarrow> self\<lparr>ing_note_normalized := Some (normalize_fn n)\<rparr>
                   | None \<Rightarrow> self);
          self2 = (case orginal_text of
                     Some t \<Rightarrow> self1\<lparr>ing_orginal_text := Some (normalize_fn t)\<rparr>
                   | None \<Rightarrow> self1);
          tableargs =
            [Index ''ix_recipes_ingredients_note_normalized'' [''note_normalized'']
               False None [],
             Index ''ix_recipes_ingredients_original_text_normalized''
               [''original_text_normalized'']
               False None []];
          tableargs2 =
            (if bind_name session = ''postgresql''
             then tableargs @
               [Index ''ix_recipes_ingredients_note_normalized_gin'' [''note_normalized'']
                  False (Some ''gin'') [(''note_normalized'', ''gin_trgm_ops'')],
                Index ''ix_recipes_ingredients_original_text_normalized_gin''
                  [''original_text'']
                  False (Some ''gin'') [(''original_text_normalized'', ''gin_trgm_ops'')]]
             else tableargs)
      in self2\<lparr>ing_table_args := tableargs2\<rparr>)"

subsection \<open>New instances\<close>

text \<open>
  An instance on which nothing has been assigned yet: every attribute reads \<^verbatim>\<open>None\<close>
  (the column defaults of \<^verbatim>\<open>use_abbreviation\<close> and \<^verbatim>\<open>fraction\<close> apply at insertion,
  not at construction), and \<^verbatim>\<open>__table_args__\<close> is not set.
\<close>

definition unit_blank :: IngredientUnitModel where
  "unit_blank =
     \<lparr>unit_group_id = None, unit_name = None, unit_description = None,
      unit_abbreviation = None, unit_use_abbreviation = None, unit_fraction = None,
      unit_name_normalized = None, unit_abbreviation_normalized = None,
      unit_table_args = []\<rparr>"

definition food_blank :: IngredientFoodModel where
  "food_blank =
     \<lparr>food_group_id = None, food_name = None, food_description = None,
      food_label_id = None, food_name_normalized = None, food_table_args = []\<rparr>"

definition ing_blank :: RecipeIngredientModel where
  "ing_blank =
     \<lparr>ing_position = None, ing_recipe_id = None, ing_title = None, ing_note = None,
      ing_unit_id = None, ing_food_id = None, ing_original_text = None,
      ing_reference_id = None, ing_note_normalized = None,
      ing_original_text_normalized = None, ing_orginal_text = None,
      ing_table_args = []\<rparr>"

subsection \<open>Sequences of assignments to the raw attributes\<close>

text \<open>
  One assignment to an attribute that has a listener, and a program of such assignments
  run from left to right on one instance.
\<close>

datatype unit_assignment = Assign_unit_name "string option"
  | Assign_unit_abbreviation "string option"

datatype food_assignment = Assign_food_name "string option"

datatype ing_assignment = Assign_ing_note "string option"
  | Assign_ing_original_text "string option"

fun unit_assign ::
  "(string \<Rightarrow> string) \<Rightarrow> IngredientUnitModel \<Rightarrow> unit_assignment \<Rightarrow> IngredientUnitModel" where
  "unit_assign normalize_fn self (Assign_unit_name v) = set_unit_name normalize_fn v self"
| "unit_assign normalize_fn self (Assign_unit_abbreviation v) =
     set_unit_abbreviation normalize_fn v self"

fun food_assign ::
  "(string \<Rightarrow> string) \<Rightarrow> IngredientFoodModel \<Rightarrow> food_assignment \<Rightarrow> IngredientFoodModel" where
  "food_assign normalize_fn self (Assign_food_name v) = set_food_name normalize_fn v self"

fun ing_assign ::
  "(string \<Rightarrow> string) \<Rightarrow> RecipeIngredientModel \<Rightarrow> ing_assignment \<Rightarrow> RecipeIngredientModel" where
  "ing_assign normalize_fn self (Assign_ing_note v) = set_ingredient_note normalize_fn v self"
| "ing_assign normalize_fn self (Assign_ing_original_text v) =
     set_ingredient_original_text normalize_fn v self"

text \<open>
  Whether the pair an assignment wrote is in step: the raw attribute holds the assigned
  value and the normalized column holds its normalization, \<^verbatim>\<open>None\<close> for \<^verbatim>\<open>None\<close>.
\<close>

fun unit_in_step ::
  "(string \<Rightarrow> string) \<Rightarrow> unit_assignment \<Rightarrow> IngredientUnitModel \<Rightarrow> bool" where
  "unit_in_step normalize_fn (Assign_unit_name v) self =
     (unit_name self = v \<and> unit_name_normalized self = map_option normalize_fn v)"
| "unit_in_step normalize_fn (Assign_unit_abbreviation v) self =
     (unit_abbreviation self = v \<and>
      unit_abbreviation_normalized self = map_option normalize_fn v)"

fun food_in_step ::
  "(string \<Rightarrow> string) \<Rightarrow> food_assignment \<Rightarrow> IngredientFoodModel \<Rightarrow> bool" where
  "food_in_step normalize_fn (Assign_food_name v) self =
     (food_name self = v \<and> food_name_normalized self = map_option normalize_fn v)"

fun ing_in_step ::
  "(string \<Rightarrow> string) \<Rightarrow> ing_assignment \<Rightarrow> RecipeIngredientModel \<Rightarrow> bool" where
  "ing_in_step normalize_fn (Assign_ing_note v) self =
     (ing_note self = v \<and> ing_note_normalized self = map_option normalize_fn v)"
| "ing_in_step normalize_fn (Assign_ing_original_text v) self =
     (ing_original_text self = v \<and>
      ing_original_text_normalized self = map_option normalize_fn v)"

subsection \<open>Reading the table arguments\<close>

text \<open>
  The test all three constructors make on the session: the engine named
  \<^verbatim>\<open>postgresql\<close> gets the trigram indexes, every other engine the base set only.
\<close>

definition trigram_capable :: "session \<Rightarrow> bool" where
  "trigram_capable session = (bind_name session = ''postgresql'')"

text \<open>
  A plain index on a column: a non-unique \<^verbatim>\<open>sa.Index\<close> on exactly that column with no
  \<^verbatim>\<open>postgresql_using\<close>. A trigram index: an \<^verbatim>\<open>sa.Index\<close> with
  \<^verbatim>\<open>postgresql_using="gin"\<close> and the operator class \<^verbatim>\<open>gin_trgm_ops\<close>; it is an index
  on the columns it is declared on.
\<close>

fun is_plain_index_on :: "string \<Rightarrow> table_arg \<Rightarrow> bool" where
  "is_plain_index_on f (Index name cols unique using ops) =
     (cols = [f] \<and> \<not> unique \<and> using = None)"
| "is_plain_index_on f (UniqueConstraint cols name) = False"

fun is_trigram_index :: "table_arg \<Rightarrow> bool" where
  "is_trigram_index (Index name cols unique using ops) =
     (using = Some ''gin'' \<and> ''gin_trgm_ops'' \<in> snd ` set ops)"
| "is_trigram_index (UniqueConstraint cols name) = False"

fun is_trigram_index_on :: "string \<Rightarrow> table_arg \<Rightarrow> bool" where
  "is_trigram_index_on f (Index name cols unique using ops) =
     (cols = [f] \<and> is_trigram_index (Index name cols unique using ops))"
| "is_trigram_index_on f (UniqueConstraint cols name) = False"

fun is_unique_constraint :: "table_arg \<Rightarrow> bool" where
  "is_unique_constraint (UniqueConstraint cols name) = True"
| "is_unique_constraint (Index name cols unique using ops) = False"

text \<open>
  The normalized columns of each class (declared under the comment ``automatically
  updated by sqlalchemy event''), and the raw attributes a listener is registered on.
\<close>

definition unit_shadow_fields :: "string list" where
  "unit_shadow_fields = [''name_normalized'', ''abbreviation_normalized'']"

definition food_shadow_fields :: "string list" where
  "food_shadow_fields = [''name_normalized'']"

definition ing_shadow_fields :: "string list" where
  "ing_shadow_fields = [''note_normalized'', ''original_text_normalized'']"

definition unit_raw_fields :: "string list" where
  "unit_raw_fields = [''name'', ''abbreviation'']"

definition food_raw_fields :: "string list" where
  "food_raw_fields = [''name'']"

definition ing_raw_fields :: "string list" where
  "ing_raw_fields = [''note'', ''original_text'']"

text \<open>
  The naming scheme: an index is called \<^verbatim>\<open>ix_<table>_<field>_normalized\<close>, with the
  suffix \<^verbatim>\<open>_gin\<close> exactly when it is declared with \<^verbatim>\<open>postgresql_using="gin"\<close>, for
  one of the raw fields of the class; a uniqueness constraint on the columns
  \<^verbatim>\<open>(<field>, <scope>)\<close> is called \<^verbatim>\<open><table>_<field>_<scope>_key\<close>.
\<close>

fun name_matches :: "string \<Rightarrow> string list \<Rightarrow> table_arg \<Rightarrow> bool" where
  "name_matches table raw_fields (Index name cols unique using ops) =
     list_ex (\<lambda>f. name = ''ix_'' @ table @ ''_'' @ f @ ''_normalized''
                      @ (if using = Some ''gin'' then ''_gin'' else [])) raw_fields"
| "name_matches table raw_fields (UniqueConstraint cols name) =
     (case cols of
        [f, scope] \<Rightarrow> name = table @ ''_'' @ f @ ''_'' @ scope @ ''_key''
      | _ \<Rightarrow> False)"

subsection \<open>The text normalizer\<close>

text \<open>
  The body of \<^verbatim>\<open>normalize\<close> is not in the source file. The definitions of this
  subsection model it from the specification, which describes the transformation as case
  folding, diacritic stripping and whitespace collapsing, with \<^verbatim>\<open>null\<close> mapped to
  \<^verbatim>\<open>null\<close>. A text is a list of characters with code points below 256 (Latin-1).
\<close>

text \<open>Modelled from the spec: the whitespace characters that whitespace collapsing
  treats alike (space, tab, line feed, vertical tab, form feed, carriage return); the body
  of \<^verbatim>\<open>normalize\<close> is missing from the source.\<close>

definition is_whitespace :: "char \<Rightarrow> bool" where
  "is_whitespace c = (let n = of_char c :: nat in n = 32 \<or> (9 \<le> n \<and> n \<le> 13))"

text \<open>Modelled from the spec: diacritic stripping, on code points; an accented Latin-1
  letter goes to its base letter and every other code point stays. The body of
  \<^verbatim>\<open>normalize\<close> is missing from the source.\<close>

definition strip_diacritic :: "nat \<Rightarrow> nat" where
  "strip_diacritic n =
     (if 192 \<le> n \<and> n \<le> 197 then 65
      else if n = 199 then 67
      else if 200 \<le> n \<and> n \<le> 203 then 69
      else if 204 \<le> n \<and> n \<le> 207 then 73
      else if n = 209 then 78
      else if 210 \<le> n \<and> n \<le> 214 then 79
      else if 217 \<le> n \<and> n \<le> 220 then 85
      else if n = 221 then 89
      else if 224 \<le> n \<and> n \<le> 229 then 97
      else if n = 231 then 99
      else if 232 \<le> n \<and> n \<le> 235 then 101
      else if 236 \<le> n \<and> n \<le> 239 then 105
      else if n = 241 then 110
      else if 242 \<le> n \<and> n \<le> 246 then 111
      else if 249 \<le> n \<and> n \<le> 252 then 117
      else if n = 253 \<or> n = 255 then 121
      else n)"

text \<open>Modelled from the spec: case folding, on code points; \<^verbatim>\<open>A\<close> to \<^verbatim>\<open>Z\<close> go to
  lower case. The body of \<^verbatim>\<open>normalize\<close> is missing from the source.\<close>

definition fold_case :: "nat \<Rightarrow> nat" where
  "fold_case n = (if 65 \<le> n \<and> n \<le> 90 then n + 32 else n)"

text \<open>Modelled from the spec: the canonical form of one character, diacritics stripped
  and then case folded. The body of \<^verbatim>\<open>normalize\<close> is missing from the source.\<close>

definition canonical_char :: "char \<Rightarrow> char" where
  "canonical_char c = char_of (fold_case (strip_diacritic (of_char c)))"

text \<open>Modelled from the spec: the words of a text, its maximal runs of characters that
  are not whitespace, for whitespace collapsing. The body of \<^verbatim>\<open>normalize\<close> is missing
  from the source.\<close>

function tokens :: "string \<Rightarrow> string list" where
  "tokens s =
     (case dropWhile is_whitespace s of
        [] \<Rightarrow> []
      | c # cs \<Rightarrow> (c # takeWhile (\<lambda>d. \<not> is_whitespace d) cs)
                 # tokens (dropWhile (\<lambda>d. \<not> is_whitespace d) cs))"
  by pat_completeness auto
termination
proof (relation "measure length")
  show "wf (measure length)" by simp
next
  fix s :: string and c cs
  assume eq: "dropWhile is_whitespace s = c # cs"
  have "length (dropWhile (\<lambda>d. \<not> is_whitespace d) cs) \<le> length cs"
    by (rule length_dropWhile_le)
  moreover have "length (c # cs) \<le> length s"
    unfolding eq [symmetric] by (rule length_dropWhile_le)
  ultimately show "(dropWhile (\<lambda>d. \<not> is_whitespace d) cs, s) \<in> measure length"
    by simp
qed

declare tokens.simps [simp del]

text \<open>Modelled from the spec: the words joined again by single spaces. The body of
  \<^verbatim>\<open>normalize\<close> is missing from the source.\<close>

fun join_words :: "string list \<Rightarrow> string" where
  "join_words [] = []"
| "join_words [w] = w"
| "join_words (w # v # ws) = w @ CHR '' '' # join_words (v # ws)"

text \<open>Modelled from the spec: whitespace collapsing; leading and trailing whitespace
  goes and every inner run of whitespace becomes one space. The body of
  \<^verbatim>\<open>normalize\<close> is missing from the source.\<close>

definition collapse_whitespace :: "string \<Rightarrow> string" where
  "collapse_whitespace s = join_words (tokens s)"

text \<open>Modelled from the spec: \<^verbatim>\<open>normalize\<close> on a text, whose body is missing from the
  source: every character in canonical form, then whitespace collapsed.\<close>

definition Normalize_text :: "string \<Rightarrow> string" where
  "Normalize_text s = collapse_whitespace (map canonical_char s)"

text \<open>Modelled from the spec: the contract \<^verbatim>\<open>Normalize(raw: Text | null) -> Text | null\<close>
  of the normalizer, whose body is missing from the source; \<^verbatim>\<open>null\<close> maps to
  \<^verbatim>\<open>null\<close>.\<close>

definition Normalize :: "string option \<Rightarrow> string option" where
  "Normalize raw = (case raw of None \<Rightarrow> None | Some t \<Rightarrow> Some (Normalize_text t))"

text \<open>A word: a non-empty text without whitespace.\<close>

definition is_word :: "string \<Rightarrow> bool" where
  "is_word w = (w \<noteq> [] \<and> list_all (\<lambda>d. \<not> is_whitespace d) w)"

subsection \<open>Uniqueness at commit\<close>

text \<open>
  Rejecting a duplicate is the storage engine's work at commit, under the table arguments
  the mapped table was declared with. The class body of \<^verbatim>\<open>IngredientUnitModel\<close>
  (lines 19 to 38) assigns no \<^verbatim>\<open>__table_args__\<close> and marks no column unique; the only
  assignment to \<^verbatim>\<open>__table_args__\<close> is the one on \<^verbatim>\<open>self\<close> that ends
  \<^verbatim>\<open>__init__\<close>, which sets an attribute of the one instance. The table arguments of
  the class are empty.
\<close>

definition IngredientUnitModel_class_table_args :: "table_arg list" where
  "IngredientUnitModel_class_table_args = []"

datatype cell = Null | Text string | Guid guid | Flag bool

datatype commit_error = UniqueViolation

text \<open>Modelled from the spec: the value a stored unit has in a named column, as the
  storage engine sees it (\<open>Null\<close> for \<^verbatim>\<open>None\<close> and for a column the table does not
  have); the storage engine is missing from the source.\<close>

definition unit_column :: "string \<Rightarrow> IngredientUnitModel \<Rightarrow> cell" where
  "unit_column c u =
     (if c = ''group_id'' then case_option Null Guid (unit_group_id u)
      else if c = ''name'' then case_option Null Text (unit_name u)
      else if c = ''description'' then case_option Null Text (unit_description u)
      else if c = ''abbreviation'' then case_option Null Text (unit_abbreviation u)
      else if c = ''use_abbreviation'' then case_option Null Flag (unit_use_abbreviation u)
      else if c = ''fraction'' then case_option Null Flag (unit_fraction u)
      else if c = ''name_normalized'' then case_option Null Text (unit_name_normalized u)
      else if c = ''abbreviation_normalized''
        then case_option Null Text (unit_abbreviation_normalized u)
      else Null)"

text \<open>Modelled from the spec: two rows collide under a table argument when it asks for
  uniqueness (a uniqueness constraint, or an index declared unique) and the rows agree on
  all its columns, none of them null; the storage engine is missing from the source.\<close>

fun unit_collide :: "table_arg \<Rightarrow> IngredientUnitModel \<Rightarrow> IngredientUnitModel \<Rightarrow> bool" where
  "unit_collide (UniqueConstraint cols name) r1 r2 =
     (map (\<lambda>c. unit_column c r1) cols = map (\<lambda>c. unit_column c r2) cols
      \<and> list_all (\<lambda>c. unit_column c r1 \<noteq> Null) cols)"
| "unit_collide (Index name cols unique using ops) r1 r2 =
     (unique \<and> map (\<lambda>c. unit_column c r1) cols = map (\<lambda>c. unit_column c r2) cols
      \<and> list_all (\<lambda>c. unit_column c r1 \<noteq> Null) cols)"

text \<open>Modelled from the spec: whether some row collides with a later one; the storage
  engine is missing from the source.\<close>

fun some_collision ::
  "table_arg \<Rightarrow> IngredientUnitModel list \<Rightarrow> bool" where
  "some_collision arg [] = False"
| "some_collision arg (r # rs) = (list_ex (unit_collide arg r) rs \<or> some_collision arg rs)"

text \<open>Modelled from the spec: the commit of a table of units under the table arguments
  the table was declared with, rejected with a uniqueness violation when two rows collide
  under one of them; the storage engine is missing from the source.\<close>

definition commit_units ::
  "table_arg list \<Rightarrow> IngredientUnitModel list \<Rightarrow> commit_error + IngredientUnitModel list" where
  "commit_units table_args rows =
     (if list_ex (\<lambda>arg. some_collision arg rows) table_args then Inl UniqueViolation
      else Inr rows)"

section \<open>Properties\<close>

subsection \<open>The listeners and the assignments\<close>

lemmas listener_defs =
  receive_unit_name_def receive_unit_abbreviation_def receive_food_name_def
  receive_ingredient_note_def receive_ingredient_original_text_def

lemmas setter_defs =
  set_unit_name_def set_unit_abbreviation_def set_food_name_def
  set_ingredient_note_def set_ingredient_original_text_def

lemma unit_assign_in_step: "unit_in_step nf a (unit_assign nf u a)"
  by (cases a) (simp_all add: setter_defs listener_defs split: option.splits)

lemma food_assign_in_step: "food_in_step nf a (food_assign nf u a)"
  by (cases a) (simp_all add: setter_defs listener_defs split: option.splits)

lemma ing_assign_in_step: "ing_in_step nf a (ing_assign nf u a)"
  by (cases a) (simp_all add: setter_defs listener_defs split: option.splits)

lemma foldl_take_Suc:
  "k < length xs \<Longrightarrow> foldl f s (take (Suc k) xs) = f (foldl f s (take k xs)) (xs ! k)"
  by (simp add: take_Suc_conv_app_nth)

subsection \<open>The table arguments\<close>

lemma unit_table_args_eq:
  "unit_table_args (IngredientUnitModel_init nf session name abbreviation self) =
     (if bind_name session = ''postgresql''
      then [UniqueConstraint [''name'', ''group_id''] ''ingredient_units_name_group_id_key'',
            Index ''ix_ingredient_units_name_normalized'' [''name_normalized'']
              False None [],
            Index ''ix_ingredient_units_abbreviation_normalized''
              [''abbreviation_normalized''] False None [],
            Index ''ix_ingredient_units_name_normalized_gin'' [''name_normalized'']
              False (Some ''gin'') [(''name_normalized'', ''gin_trgm_ops'')],
            Index ''ix_ingredient_units_abbreviation_normalized_gin''
              [''abbreviation_normalized'']
              False (Some ''gin'') [(''abbreviation_normalized'', ''gin_trgm_ops'')]]
      else [UniqueConstraint [''name'', ''group_id''] ''ingredient_units_name_group_id_key'',
            Index ''ix_ingredient_units_name_normalized'' [''name_normalized'']
              False None [],
            Index ''ix_ingredient_units_abbreviation_normalized''
              [''abbreviation_normalized''] False None []])"
  by (simp add: IngredientUnitModel_init_def Let_def)

lemma food_table_args_eq:
  "food_table_args (IngredientFoodModel_init nf session name self) =
     (if bind_name session = ''postgresql''
      then [UniqueConstraint [''name'', ''group_id''] ''ingredient_foods_name_group_id_key'',
            Index ''ix_ingredient_foods_name_normalized'' [''name_normalized'']
              False None [],
            Index ''ix_ingredient_foods_name_normalized_gin'' [''name_normalized'']
              False (Some ''gin'') [(''name_normalized'', ''gin_trgm_ops'')]]
      else [UniqueConstraint [''name'', ''group_id''] ''ingredient_foods_name_group_id_key'',
            Index ''ix_ingredient_foods_name_normalized'' [''name_normalized'']
              False None []])"
  by (simp add: IngredientFoodModel_init_def Let_def)

lemma ing_table_args_eq:
  "ing_table_args (RecipeIngredientModel_init nf session note orginal_text self) =
     (if bind_name session = ''postgresql''
      then [Index ''ix_recipes_ingredients_note_normalized'' [''note_normalized'']
              False None [],
            Index ''ix_recipes_ingredients_original_text_normalized''
              [''original_text_normalized''] False None [],
            Index ''ix_recipes_ingredients_note_normalized_gin'' [''note_normalized'']
              False (Some ''gin'') [(''note_normalized'', ''gin_trgm_ops'')],
            Index ''ix_recipes_ingredients_original_text_normalized_gin''
              [''original_text'']
              False (Some ''gin'') [(''original_text_normalized'', ''gin_trgm_ops'')]]
      else [Index ''ix_recipes_ingredients_note_normalized'' [''note_normalized'']
              False None [],
            Index ''ix_recipes_ingredients_original_text_normalized''
              [''original_text_normalized''] False None []])"
  by (simp add: RecipeIngredientModel_init_def Let_def)

subsection \<open>The text normalizer\<close>

lemma strip_diacritic_ascii: "n < 128 \<Longrightarrow> strip_diacritic n = n"
  unfolding strip_diacritic_def by (auto split: if_splits)

lemma strip_diacritic_changes: "strip_diacritic n \<noteq> n \<Longrightarrow> strip_diacritic n < 128"
  unfolding strip_diacritic_def by (auto split: if_splits)

lemma strip_diacritic_letter:
  "strip_diacritic n = n \<or> (65 \<le> strip_diacritic n \<and> strip_diacritic n \<le> 121)"
  by (simp add: strip_diacritic_def)

lemma strip_diacritic_bound: "n < 256 \<Longrightarrow> strip_diacritic n < 256"
  using strip_diacritic_letter [of n] by auto

lemma fold_case_ascii: "n < 128 \<Longrightarrow> fold_case n < 128"
  by (simp add: fold_case_def)

lemma fold_case_high: "128 \<le> n \<Longrightarrow> fold_case n = n"
  by (simp add: fold_case_def)

lemma fold_case_bound: "n < 256 \<Longrightarrow> fold_case n < 256"
  by (simp add: fold_case_def)

lemma fold_case_idem: "fold_case (fold_case n) = fold_case n"
  by (simp add: fold_case_def)

lemma canonical_code_idem:
  "fold_case (strip_diacritic (fold_case (strip_diacritic n))) = fold_case (strip_diacritic n)"
proof (cases "strip_diacritic n < 128")
  case True
  then show ?thesis
    by (simp add: fold_case_ascii strip_diacritic_ascii fold_case_idem)
next
  case False
  then have same: "strip_diacritic n = n"
    using strip_diacritic_changes [of n] by blast
  with False have "fold_case n = n"
    by (simp add: fold_case_high)
  with same show ?thesis by simp
qed

lemma of_char_canonical_char:
  "of_char (canonical_char c) = fold_case (strip_diacritic (of_char c))"
proof -
  have "fold_case (strip_diacritic (of_char c)) < 256"
    by (simp add: fold_case_bound strip_diacritic_bound)
  then show ?thesis by (simp add: canonical_char_def)
qed

lemma canonical_char_idem: "canonical_char (canonical_char c) = canonical_char c"
  by (rule of_char_eqI [where ?'a = nat])
    (simp only: of_char_canonical_char canonical_code_idem)

lemma canonical_code_whitespace:
  "(fold_case (strip_diacritic n) = 32
      \<or> (9 \<le> fold_case (strip_diacritic n) \<and> fold_case (strip_diacritic n) \<le> 13))
   = (n = 32 \<or> (9 \<le> n \<and> n \<le> 13))"
proof (cases "strip_diacritic n = n")
  case True
  then show ?thesis by (auto simp: fold_case_def split: if_splits)
next
  case False
  then have "65 \<le> strip_diacritic n \<and> strip_diacritic n \<le> 121"
    using strip_diacritic_letter [of n] by blast
  moreover from False have "128 \<le> n"
    using strip_diacritic_ascii [of n] by (cases "n < 128") auto
  ultimately show ?thesis by (auto simp: fold_case_def split: if_splits)
qed

lemma canonical_char_whitespace: "is_whitespace (canonical_char c) = is_whitespace c"
  by (simp only: is_whitespace_def Let_def of_char_canonical_char canonical_code_whitespace)

lemma canonical_char_space: "canonical_char (CHR '' '') = CHR '' ''"
  by (rule of_char_eqI [where ?'a = nat])
    (simp add: of_char_canonical_char fold_case_def strip_diacritic_def)

lemma space_is_whitespace: "is_whitespace (CHR '' '')"
  by (simp add: is_whitespace_def)

lemma tokens_empty: "dropWhile is_whitespace s = [] \<Longrightarrow> tokens s = []"
  by (subst tokens.simps) (simp only: list.case)

lemma tokens_first:
  "dropWhile is_whitespace s = c # cs \<Longrightarrow>
   tokens s = (c # takeWhile (\<lambda>d. \<not> is_whitespace d) cs)
     # tokens (dropWhile (\<lambda>d. \<not> is_whitespace d) cs)"
  by (subst tokens.simps) (simp only: list.case)

lemma tokens_Nil: "tokens [] = []"
  by (rule tokens_empty) simp

lemma tokens_whitespace_Cons: "is_whitespace c \<Longrightarrow> tokens (c # s) = tokens s"
  by (subst tokens.simps, subst (2) tokens.simps) simp

lemma is_word_Cons:
  "is_word w \<Longrightarrow>
   \<exists>d ds. w = d # ds \<and> \<not> is_whitespace d \<and> (\<forall>x\<in>set ds. \<not> is_whitespace x)"
  by (cases w) (auto simp: is_word_def list_all_iff)

lemma tokens_word_then_whitespace:
  assumes "is_word w" "is_whitespace c"
  shows "tokens (w @ c # s) = w # tokens s"
proof -
  from is_word_Cons [OF assms(1)] obtain d ds where w: "w = d # ds"
    and d: "\<not> is_whitespace d" and ds: "\<forall>x\<in>set ds. \<not> is_whitespace x"
    by blast
  have "dropWhile is_whitespace (w @ c # s) = d # (ds @ c # s)"
    by (simp add: w d)
  then have "tokens (w @ c # s) = (d # takeWhile (\<lambda>d. \<not> is_whitespace d) (ds @ c # s))
      # tokens (dropWhile (\<lambda>d. \<not> is_whitespace d) (ds @ c # s))"
    by (rule tokens_first)
  also have "takeWhile (\<lambda>d. \<not> is_whitespace d) (ds @ c # s) = ds"
    using ds assms(2) by (simp add: takeWhile_append2)
  also have "dropWhile (\<lambda>d. \<not> is_whitespace d) (ds @ c # s) = c # s"
    using ds assms(2) by (simp add: dropWhile_append2)
  finally show ?thesis by (simp add: w tokens_whitespace_Cons assms(2))
qed

lemma tokens_word:
  assumes "is_word w"
  shows "tokens w = [w]"
proof -
  from is_word_Cons [OF assms] obtain d ds where w: "w = d # ds"
    and d: "\<not> is_whitespace d" and ds: "\<forall>x\<in>set ds. \<not> is_whitespace x"
    by blast
  have "dropWhile is_whitespace w = d # ds"
    by (simp add: w d)
  then have "tokens w = (d # takeWhile (\<lambda>d. \<not> is_whitespace d) ds)
      # tokens (dropWhile (\<lambda>d. \<not> is_whitespace d) ds)"
    by (rule tokens_first)
  also have "takeWhile (\<lambda>d. \<not> is_whitespace d) ds = ds"
    using ds by simp
  also have "dropWhile (\<lambda>d. \<not> is_whitespace d) ds = []"
    using ds by simp
  finally show ?thesis by (simp add: w tokens_Nil)
qed

lemma tokens_join_words: "list_all is_word ws \<Longrightarrow> tokens (join_words ws) = ws"
proof (induction ws rule: join_words.induct)
  case 1
  show ?case by (simp add: tokens_Nil)
next
  case (2 w)
  then show ?case by (simp add: tokens_word)
next
  case (3 w v ws)
  then show ?case by (simp add: tokens_word_then_whitespace space_is_whitespace)
qed

lemma tokens_are_words: "list_all is_word (tokens s)"
proof (induction s rule: tokens.induct)
  case (1 s)
  show ?case
  proof (cases "dropWhile is_whitespace s")
    case Nil
    then show ?thesis by (simp only: tokens_empty list.pred_inject)
  next
    case (Cons c cs)
    then have "\<not> is_whitespace c"
      using hd_dropWhile [of is_whitespace s] by auto
    moreover have "list_all (\<lambda>d. \<not> is_whitespace d) (takeWhile (\<lambda>d. \<not> is_whitespace d) cs)"
      by (auto simp: list_all_iff dest: set_takeWhileD)
    ultimately have "is_word (c # takeWhile (\<lambda>d. \<not> is_whitespace d) cs)"
      by (simp add: is_word_def)
    with 1 [OF Cons] show ?thesis
      by (simp only: tokens_first [OF Cons] list.pred_inject simp_thms)
  qed
qed

lemma tokens_map:
  assumes "\<And>c. is_whitespace (f c) = is_whitespace c"
  shows "tokens (map f s) = map (map f) (tokens s)"
proof (induction s rule: tokens.induct)
  case (1 s)
  have dw: "dropWhile is_whitespace (map f s) = map f (dropWhile is_whitespace s)"
    by (simp add: dropWhile_map comp_def assms)
  show ?case
  proof (cases "dropWhile is_whitespace s")
    case Nil
    then have "dropWhile is_whitespace (map f s) = []"
      by (simp only: dw list.map)
    then show ?thesis by (simp only: tokens_empty Nil list.map)
  next
    case (Cons c cs)
    have "dropWhile is_whitespace (map f s) = f c # map f cs"
      by (simp only: dw Cons list.map)
    then have "tokens (map f s) = (f c # takeWhile (\<lambda>d. \<not> is_whitespace d) (map f cs))
        # tokens (dropWhile (\<lambda>d. \<not> is_whitespace d) (map f cs))"
      by (rule tokens_first)
    also have "takeWhile (\<lambda>d. \<not> is_whitespace d) (map f cs)
        = map f (takeWhile (\<lambda>d. \<not> is_whitespace d) cs)"
      by (simp add: takeWhile_map comp_def assms)
    also have "dropWhile (\<lambda>d. \<not> is_whitespace d) (map f cs)
        = map f (dropWhile (\<lambda>d. \<not> is_whitespace d) cs)"
      by (simp add: dropWhile_map comp_def assms)
    also have "tokens (map f (dropWhile (\<lambda>d. \<not> is_whitespace d) cs))
        = map (map f) (tokens (dropWhile (\<lambda>d. \<not> is_whitespace d) cs))"
      by (rule 1 [OF Cons])
    finally show ?thesis
      by (simp only: tokens_first [OF Cons] list.map)
  qed
qed

lemma join_words_map:
  "f (CHR '' '') = CHR '' '' \<Longrightarrow> map f (join_words ws) = join_words (map (map f) ws)"
  by (induction ws rule: join_words.induct) simp_all

lemma Normalize_text_idem: "Normalize_text (Normalize_text s) = Normalize_text s"
proof -
  have "map canonical_char (join_words (tokens (map canonical_char s)))
      = join_words (map (map canonical_char) (map (map canonical_char) (tokens s)))"
    by (simp add: join_words_map canonical_char_space tokens_map canonical_char_whitespace)
  also have "\<dots> = join_words (map (map canonical_char) (tokens s))"
    by (simp add: comp_def canonical_char_idem)
  also have "\<dots> = join_words (tokens (map canonical_char s))"
    by (simp add: tokens_map canonical_char_whitespace)
  finally show ?thesis
    by (simp add: Normalize_text_def collapse_whitespace_def tokens_join_words
        tokens_are_words)
qed

lemma Normalize_text_Tbsp: "Normalize_text ''Tbsp'' = ''tbsp''"
  by code_simp

lemma Normalize_text_Tablespoon: "Normalize_text ''Tablespoon'' = ''tablespoon''"
  by code_simp

lemma Normalize_text_cloves: "Normalize_text ''2  Cloves, Minced '' = ''2 cloves, minced''"
  by code_simp

section \<open>The claims\<close>

text \<open>
  C1. For each of the five registered pairs (unit name, unit abbreviation, food name,
  ingredient note, ingredient original text), on any instance and for any sequence of
  direct assignments to the raw attributes: immediately after each assignment of the
  sequence, the raw attribute holds the assigned value and its normalized column holds
  the normalization of that value (\<^verbatim>\<open>None\<close> for \<^verbatim>\<open>None\<close>).
\<close>

theorem shadow_in_step_after_each_assignment:
  "(k < length us \<longrightarrow>
      unit_in_step nf (us ! k) (foldl (unit_assign nf) u (take (Suc k) us))) \<and>
   (k < length fs \<longrightarrow>
      food_in_step nf (fs ! k) (foldl (food_assign nf) f (take (Suc k) fs))) \<and>
   (k < length ls \<longrightarrow>
      ing_in_step nf (ls ! k) (foldl (ing_assign nf) l (take (Suc k) ls)))"
  by (simp add: foldl_take_Suc unit_assign_in_step food_assign_in_step ing_assign_in_step)

theorem shadow_in_step_after_each_assignment_witness:
  "(1 < length [Assign_unit_name (Some ''Tablespoon''), Assign_unit_abbreviation (Some ''Tbsp'')]
    \<and> unit_in_step Normalize_text
        ([Assign_unit_name (Some ''Tablespoon''), Assign_unit_abbreviation (Some ''Tbsp'')] ! 1)
        (foldl (unit_assign Normalize_text) unit_blank
          (take (Suc 1)
            [Assign_unit_name (Some ''Tablespoon''), Assign_unit_abbreviation (Some ''Tbsp'')])))
   \<and> (1 < length [Assign_food_name (Some ''Garlic''), Assign_food_name None]
    \<and> food_in_step Normalize_text
        ([Assign_food_name (Some ''Garlic''), Assign_food_name None] ! 1)
        (foldl (food_assign Normalize_text) food_blank
          (take (Suc 1) [Assign_food_name (Some ''Garlic''), Assign_food_name None])))
   \<and> (1 < length [Assign_ing_original_text (Some ''2 Cloves''), Assign_ing_note (Some ''Minced'')]
    \<and> ing_in_step Normalize_text
        ([Assign_ing_original_text (Some ''2 Cloves''), Assign_ing_note (Some ''Minced'')] ! 1)
        (foldl (ing_assign Normalize_text) ing_blank
          (take (Suc 1)
            [Assign_ing_original_text (Some ''2 Cloves''), Assign_ing_note (Some ''Minced'')])))"
  using shadow_in_step_after_each_assignment
    [of 1 "[Assign_unit_name (Some ''Tablespoon''), Assign_unit_abbreviation (Some ''Tbsp'')]"
      Normalize_text unit_blank
      "[Assign_food_name (Some ''Garlic''), Assign_food_name None]" food_blank
      "[Assign_ing_original_text (Some ''2 Cloves''), Assign_ing_note (Some ''Minced'')]"
      ing_blank]
  by simp

text \<open>
  C5. For each of the five pairs, assigning \<^verbatim>\<open>None\<close> to the raw attribute leaves
  \<^verbatim>\<open>None\<close> in the normalized column, whatever it held before.
\<close>

theorem null_assignment_clears_shadow:
  "unit_name_normalized (set_unit_name nf None u) = None \<and>
   unit_abbreviation_normalized (set_unit_abbreviation nf None u) = None \<and>
   food_name_normalized (set_food_name nf None f) = None \<and>
   ing_note_normalized (set_ingredient_note nf None l) = None \<and>
   ing_original_text_normalized (set_ingredient_original_text nf None l) = None"
  by (simp add: setter_defs listener_defs)

text \<open>
  C8. The normalizer is idempotent on every text and on \<^verbatim>\<open>null\<close>, and maps
  \<^verbatim>\<open>null\<close> to \<^verbatim>\<open>null\<close> and a text to a text. It is a function of its argument alone:
  the same input gives the same output, and it has no state to change.
\<close>

theorem Normalize_idempotent:
  "Normalize (Normalize t) = Normalize t \<and> Normalize None = None
   \<and> Normalize (Some s) = Some (Normalize_text s)"
  by (cases t) (simp_all add: Normalize_def Normalize_text_idem)

text \<open>
  C10. For a unit whose constructor body runs with a non-null abbreviation \<open>a\<close>, if the
  normalizer is idempotent then after the body the normalized abbreviation column holds
  the normalization of \<open>a\<close>: the body assigns the normalized text to the raw attribute,
  the listener fires and stores its normalization.
\<close>

theorem unit_init_abbreviation_normalized:
  assumes "\<forall>x. nf (nf x) = nf x"
  shows "unit_abbreviation_normalized
           (IngredientUnitModel_init nf session name (Some a) self) = Some (nf a)"
  using assms
  by (simp add: IngredientUnitModel_init_def Let_def set_unit_abbreviation_def
      receive_unit_abbreviation_def)

theorem unit_init_abbreviation_normalized_witness:
  "(\<forall>x. Normalize_text (Normalize_text x) = Normalize_text x) \<and>
   unit_abbreviation_normalized
     (IngredientUnitModel_init Normalize_text \<lparr>bind_name = ''sqlite''\<rparr> (Some ''Tablespoon'')
        (Some ''Tbsp'') unit_blank) = Some (Normalize_text ''Tbsp'')"
proof -
  have idem: "\<forall>x. Normalize_text (Normalize_text x) = Normalize_text x"
    by (simp add: Normalize_text_idem)
  from unit_init_abbreviation_normalized [OF idem] idem show ?thesis by blast
qed

subsection \<open>Index families of the three plans\<close>

lemma unit_index_family:
  "f \<in> set unit_shadow_fields \<Longrightarrow>
   length (filter (is_plain_index_on f)
     (unit_table_args (IngredientUnitModel_init nf session name abbreviation self))) = 1 \<and>
   length (filter (is_trigram_index_on f)
     (unit_table_args (IngredientUnitModel_init nf session name abbreviation self)))
     = (if trigram_capable session then 1 else 0)"
  by (auto simp: unit_table_args_eq unit_shadow_fields_def trigram_capable_def)

lemma food_index_family:
  "f \<in> set food_shadow_fields \<Longrightarrow>
   length (filter (is_plain_index_on f)
     (food_table_args (IngredientFoodModel_init nf session name self))) = 1 \<and>
   length (filter (is_trigram_index_on f)
     (food_table_args (IngredientFoodModel_init nf session name self)))
     = (if trigram_capable session then 1 else 0)"
  by (auto simp: food_table_args_eq food_shadow_fields_def trigram_capable_def)

lemma ing_index_family_generic:
  "\<not> trigram_capable session \<Longrightarrow> f \<in> set ing_shadow_fields \<Longrightarrow>
   length (filter (is_plain_index_on f)
     (ing_table_args (RecipeIngredientModel_init nf session note orginal_text self))) = 1 \<and>
   filter is_trigram_index
     (ing_table_args (RecipeIngredientModel_init nf session note orginal_text self)) = []"
  by (auto simp: ing_table_args_eq ing_shadow_fields_def trigram_capable_def)

lemma ing_index_family_note:
  "length (filter (is_plain_index_on ''note_normalized'')
     (ing_table_args (RecipeIngredientModel_init nf session note orginal_text self))) = 1 \<and>
   length (filter (is_trigram_index_on ''note_normalized'')
     (ing_table_args (RecipeIngredientModel_init nf session note orginal_text self)))
     = (if trigram_capable session then 1 else 0)"
  by (simp add: ing_table_args_eq trigram_capable_def)

text \<open>
  C2. On the engine \<^verbatim>\<open>postgresql\<close> the table arguments of an ingredient line hold no
  trigram index on the normalized column \<^verbatim>\<open>original_text_normalized\<close>: the one trigram
  index named after that column is declared on the raw column \<^verbatim>\<open>original_text\<close>. (The
  lemmas above show one plain index per normalized column everywhere, and one trigram
  index per normalized column of the units, of the foods and for the note.)
\<close>

theorem ing_original_text_trigram_index_on_raw_column:
  "trigram_capable \<lparr>bind_name = ''postgresql''\<rparr> \<and>
   filter (is_trigram_index_on ''original_text_normalized'')
     (ing_table_args (RecipeIngredientModel_init nf \<lparr>bind_name = ''postgresql''\<rparr>
        note orginal_text self)) = [] \<and>
   filter (is_trigram_index_on ''original_text'')
     (ing_table_args (RecipeIngredientModel_init nf \<lparr>bind_name = ''postgresql''\<rparr>
        note orginal_text self))
     = [Index ''ix_recipes_ingredients_original_text_normalized_gin'' [''original_text'']
          False (Some ''gin'') [(''original_text_normalized'', ''gin_trgm_ops'')]]"
  by (simp add: ing_table_args_eq trigram_capable_def)

text \<open>
  C3. The body of the constructor of an ingredient line never writes
  \<^verbatim>\<open>original_text_normalized\<close>: whatever the keyword arguments are, the column and the
  raw attribute \<^verbatim>\<open>original_text\<close> are after the body what the population step left in
  them, and a non-null keyword \<^verbatim>\<open>orginal_text\<close> only creates the attribute of that
  name. On a line populated with the original text \<^verbatim>\<open>2 Cloves\<close> that no listener has
  observed, the normalized column is still \<^verbatim>\<open>None\<close> after construction; the note of the
  same line is recomputed.
\<close>

theorem ing_init_leaves_original_text_normalized:
  "ing_original_text_normalized (RecipeIngredientModel_init nf session note orginal_text self)
     = ing_original_text_normalized self \<and>
   ing_original_text (RecipeIngredientModel_init nf session note orginal_text self)
     = ing_original_text self \<and>
   ing_original_text_normalized
     (RecipeIngredientModel_init Normalize_text \<lparr>bind_name = ''sqlite''\<rparr> (Some ''Minced'') None
        (ing_blank\<lparr>ing_note := Some ''Minced'', ing_original_text := Some ''2 Cloves''\<rparr>))
     = None \<and>
   ing_original_text
     (RecipeIngredientModel_init Normalize_text \<lparr>bind_name = ''sqlite''\<rparr> (Some ''Minced'') None
        (ing_blank\<lparr>ing_note := Some ''Minced'', ing_original_text := Some ''2 Cloves''\<rparr>))
     = Some ''2 Cloves'' \<and>
   ing_note_normalized
     (RecipeIngredientModel_init Normalize_text \<lparr>bind_name = ''sqlite''\<rparr> (Some ''Minced'') None
        (ing_blank\<lparr>ing_note := Some ''Minced'', ing_original_text := Some ''2 Cloves''\<rparr>))
     = Some (Normalize_text ''Minced'')"
  by (simp add: RecipeIngredientModel_init_def Let_def ing_blank_def split: option.splits)

text \<open>
  C6. The body of the constructor of a unit, run with a non-null abbreviation \<open>a\<close>,
  leaves the normalization of \<open>a\<close> in the raw attribute \<^verbatim>\<open>abbreviation\<close>: a unit
  populated with the abbreviation \<^verbatim>\<open>Tbsp\<close> reads \<^verbatim>\<open>tbsp\<close> after construction.
\<close>

theorem unit_init_overwrites_raw_abbreviation:
  "unit_abbreviation (IngredientUnitModel_init nf session name (Some a) self) = Some (nf a) \<and>
   unit_abbreviation
     (IngredientUnitModel_init Normalize_text \<lparr>bind_name = ''sqlite''\<rparr> None (Some ''Tbsp'')
        (unit_blank\<lparr>unit_abbreviation := Some ''Tbsp''\<rparr>)) = Some ''tbsp''"
  by (simp add: IngredientUnitModel_init_def Let_def set_unit_abbreviation_def
      receive_unit_abbreviation_def Normalize_text_Tbsp)

text \<open>
  C4, as the code has it. The constructors have no failing path and the engine test has
  two outcomes only: the engine name \<^verbatim>\<open>postgresql\<close> gets the base table arguments
  followed by the gin indexes the constructor declares, and every other engine name,
  whatever it is, gets the base table arguments alone, without any trigram index.
\<close>

theorem table_args_two_outcomes:
  "unit_table_args (IngredientUnitModel_init nf session name abbr u) =
     (if bind_name session = ''postgresql''
      then [UniqueConstraint [''name'', ''group_id''] ''ingredient_units_name_group_id_key'',
            Index ''ix_ingredient_units_name_normalized'' [''name_normalized'']
              False None [],
            Index ''ix_ingredient_units_abbreviation_normalized''
              [''abbreviation_normalized''] False None [],
            Index ''ix_ingredient_units_name_normalized_gin'' [''name_normalized'']
              False (Some ''gin'') [(''name_normalized'', ''gin_trgm_ops'')],
            Index ''ix_ingredient_units_abbreviation_normalized_gin''
              [''abbreviation_normalized'']
              False (Some ''gin'') [(''abbreviation_normalized'', ''gin_trgm_ops'')]]
      else [UniqueConstraint [''name'', ''group_id''] ''ingredient_units_name_group_id_key'',
            Index ''ix_ingredient_units_name_normalized'' [''name_normalized'']
              False None [],
            Index ''ix_ingredient_units_abbreviation_normalized''
              [''abbreviation_normalized''] False None []]) \<and>
   food_table_args (IngredientFoodModel_init nf session name f) =
     (if bind_name session = ''postgresql''
      then [UniqueConstraint [''name'', ''group_id''] ''ingredient_foods_name_group_id_key'',
            Index ''ix_ingredient_foods_name_normalized'' [''name_normalized'']
              False None [],
            Index ''ix_ingredient_foods_name_normalized_gin'' [''name_normalized'']
              False (Some ''gin'') [(''name_normalized'', ''gin_trgm_ops'')]]
      else [UniqueConstraint [''name'', ''group_id''] ''ingredient_foods_name_group_id_key'',
            Index ''ix_ingredient_foods_name_normalized'' [''name_normalized'']
              False None []]) \<and>
   ing_table_args (RecipeIngredientModel_init nf session nt ot l) =
     (if bind_name session = ''postgresql''
      then [Index ''ix_recipes_ingredients_note_normalized'' [''note_normalized'']
              False None [],
            Index ''ix_recipes_ingredients_original_text_normalized''
              [''original_text_normalized''] False None [],
            Index ''ix_recipes_ingredients_note_normalized_gin'' [''note_normalized'']
              False (Some ''gin'') [(''note_normalized'', ''gin_trgm_ops'')],
            Index ''ix_recipes_ingredients_original_text_normalized_gin''
              [''original_text'']
              False (Some ''gin'') [(''original_text_normalized'', ''gin_trgm_ops'')]]
      else [Index ''ix_recipes_ingredients_note_normalized'' [''note_normalized'']
              False None [],
            Index ''ix_recipes_ingredients_original_text_normalized''
              [''original_text_normalized''] False None []]) \<and>
   (filter is_trigram_index
      (unit_table_args (IngredientUnitModel_init nf session name abbr u)) = [])
     = (bind_name session \<noteq> ''postgresql'') \<and>
   (filter is_trigram_index
      (food_table_args (IngredientFoodModel_init nf session name f)) = [])
     = (bind_name session \<noteq> ''postgresql'') \<and>
   (filter is_trigram_index
      (ing_table_args (RecipeIngredientModel_init nf session nt ot l)) = [])
     = (bind_name session \<noteq> ''postgresql'')"
proof -
  have units: "(filter is_trigram_index
      (unit_table_args (IngredientUnitModel_init nf session name abbr u)) = [])
     = (bind_name session \<noteq> ''postgresql'')"
    by (simp add: unit_table_args_eq)
  have foods: "(filter is_trigram_index
      (food_table_args (IngredientFoodModel_init nf session name f)) = [])
     = (bind_name session \<noteq> ''postgresql'')"
    by (simp add: food_table_args_eq)
  have lines: "(filter is_trigram_index
      (ing_table_args (RecipeIngredientModel_init nf session nt ot l)) = [])
     = (bind_name session \<noteq> ''postgresql'')"
    by (simp add: ing_table_args_eq)
  show ?thesis
    by (intro conjI unit_table_args_eq food_table_args_eq ing_table_args_eq
        units foods lines)
qed

theorem table_args_two_outcomes_witness:
  "unit_table_args (IngredientUnitModel_init Normalize_text \<lparr>bind_name = ''sqlite''\<rparr>
       (Some ''Tablespoon'') (Some ''Tbsp'') unit_blank) =
     [UniqueConstraint [''name'', ''group_id''] ''ingredient_units_name_group_id_key'',
      Index ''ix_ingredient_units_name_normalized'' [''name_normalized''] False None [],
      Index ''ix_ingredient_units_abbreviation_normalized'' [''abbreviation_normalized'']
        False None []] \<and>
   food_table_args (IngredientFoodModel_init Normalize_text \<lparr>bind_name = ''sqlite''\<rparr>
       (Some ''Tablespoon'') food_blank) =
     [UniqueConstraint [''name'', ''group_id''] ''ingredient_foods_name_group_id_key'',
      Index ''ix_ingredient_foods_name_normalized'' [''name_normalized''] False None []] \<and>
   ing_table_args (RecipeIngredientModel_init Normalize_text \<lparr>bind_name = ''sqlite''\<rparr>
       None None ing_blank) =
     [Index ''ix_recipes_ingredients_note_normalized'' [''note_normalized''] False None [],
      Index ''ix_recipes_ingredients_original_text_normalized''
        [''original_text_normalized''] False None []] \<and>
   food_table_args (IngredientFoodModel_init Normalize_text \<lparr>bind_name = ''postgresql''\<rparr>
       (Some ''Tablespoon'') food_blank) =
     [UniqueConstraint [''name'', ''group_id''] ''ingredient_foods_name_group_id_key'',
      Index ''ix_ingredient_foods_name_normalized'' [''name_normalized''] False None [],
      Index ''ix_ingredient_foods_name_normalized_gin'' [''name_normalized'']
        False (Some ''gin'') [(''name_normalized'', ''gin_trgm_ops'')]] \<and>
   filter is_trigram_index
     (unit_table_args (IngredientUnitModel_init Normalize_text \<lparr>bind_name = ''sqlite''\<rparr>
       (Some ''Tablespoon'') (Some ''Tbsp'') unit_blank)) = []"
  using
    table_args_two_outcomes
      [where nf = Normalize_text and session = "\<lparr>bind_name = ''sqlite''\<rparr>"
        and name = "Some ''Tablespoon''" and abbr = "Some ''Tbsp''" and u = unit_blank
        and f = food_blank and nt = None and ot = None and l = ing_blank]
    table_args_two_outcomes
      [where nf = Normalize_text and session = "\<lparr>bind_name = ''postgresql''\<rparr>"
        and name = "Some ''Tablespoon''" and abbr = "Some ''Tbsp''" and u = unit_blank
        and f = food_blank and nt = None and ot = None and l = ing_blank]
  by simp

text \<open>
  C4, as stated, fails: on a session whose engine name is no engine at all the
  constructor of a unit returns, with the base table arguments and no trigram index.
\<close>

theorem unrecognized_engine_counterexample:
  "\<not> trigram_capable \<lparr>bind_name = ''no_such_engine''\<rparr> \<and>
   unit_table_args (IngredientUnitModel_init Normalize_text \<lparr>bind_name = ''no_such_engine''\<rparr>
       None None unit_blank) =
     [UniqueConstraint [''name'', ''group_id''] ''ingredient_units_name_group_id_key'',
      Index ''ix_ingredient_units_name_normalized'' [''name_normalized''] False None [],
      Index ''ix_ingredient_units_abbreviation_normalized'' [''abbreviation_normalized'']
        False None []]"
  by (simp add: unit_table_args_eq trigram_capable_def)

text \<open>
  C9. The table arguments a constructor emits depend on the class and on the outcome of
  the engine test only: two runs on sessions with the same outcome emit equal table
  arguments, whatever the instances, the keyword arguments and the normalizer are. Every
  index is named \<^verbatim>\<open>ix_<table>_<field>_normalized\<close>, with \<^verbatim>\<open>_gin\<close> appended for the
  trigram indexes, and every uniqueness constraint \<^verbatim>\<open><table>_<field>_<scope>_key\<close>.
\<close>

theorem table_args_function_of_capability:
  "(trigram_capable s = trigram_capable s' \<longrightarrow>
      unit_table_args (IngredientUnitModel_init nf s name abbr u)
        = unit_table_args (IngredientUnitModel_init nf' s' name' abbr' u') \<and>
      food_table_args (IngredientFoodModel_init nf s name f)
        = food_table_args (IngredientFoodModel_init nf' s' name' f') \<and>
      ing_table_args (RecipeIngredientModel_init nf s nt ot l)
        = ing_table_args (RecipeIngredientModel_init nf' s' nt' ot' l')) \<and>
   list_all (name_matches IngredientUnitModel_tablename unit_raw_fields)
     (unit_table_args (IngredientUnitModel_init nf s name abbr u)) \<and>
   list_all (name_matches IngredientFoodModel_tablename food_raw_fields)
     (food_table_args (IngredientFoodModel_init nf s name f)) \<and>
   list_all (name_matches RecipeIngredientModel_tablename ing_raw_fields)
     (ing_table_args (RecipeIngredientModel_init nf s nt ot l))"
proof -
  have same: "trigram_capable s = trigram_capable s' \<Longrightarrow>
      unit_table_args (IngredientUnitModel_init nf s name abbr u)
        = unit_table_args (IngredientUnitModel_init nf' s' name' abbr' u') \<and>
      food_table_args (IngredientFoodModel_init nf s name f)
        = food_table_args (IngredientFoodModel_init nf' s' name' f') \<and>
      ing_table_args (RecipeIngredientModel_init nf s nt ot l)
        = ing_table_args (RecipeIngredientModel_init nf' s' nt' ot' l')"
    by (simp add: unit_table_args_eq food_table_args_eq ing_table_args_eq
        trigram_capable_def)
  have units: "list_all (name_matches IngredientUnitModel_tablename unit_raw_fields)
      (unit_table_args (IngredientUnitModel_init nf s name abbr u))"
    by (simp add: unit_table_args_eq IngredientUnitModel_tablename_def unit_raw_fields_def)
  have foods: "list_all (name_matches IngredientFoodModel_tablename food_raw_fields)
      (food_table_args (IngredientFoodModel_init nf s name f))"
    by (simp add: food_table_args_eq IngredientFoodModel_tablename_def food_raw_fields_def)
  have lines: "list_all (name_matches RecipeIngredientModel_tablename ing_raw_fields)
      (ing_table_args (RecipeIngredientModel_init nf s nt ot l))"
    by (simp add: ing_table_args_eq RecipeIngredientModel_tablename_def ing_raw_fields_def)
  from same units foods lines show ?thesis by blast
qed

theorem table_args_function_of_capability_witness:
  "trigram_capable \<lparr>bind_name = ''postgresql''\<rparr> = trigram_capable \<lparr>bind_name = ''postgresql''\<rparr> \<and>
   unit_table_args (IngredientUnitModel_init Normalize_text \<lparr>bind_name = ''postgresql''\<rparr>
       (Some ''Tablespoon'') (Some ''Tbsp'') unit_blank)
     = unit_table_args (IngredientUnitModel_init id \<lparr>bind_name = ''postgresql''\<rparr>
       None None (unit_blank\<lparr>unit_description := Some ''spoon''\<rparr>)) \<and>
   list_all (name_matches IngredientUnitModel_tablename unit_raw_fields)
     (unit_table_args (IngredientUnitModel_init Normalize_text \<lparr>bind_name = ''postgresql''\<rparr>
       (Some ''Tablespoon'') (Some ''Tbsp'') unit_blank)) \<and>
   list_all (name_matches IngredientFoodModel_tablename food_raw_fields)
     (food_table_args (IngredientFoodModel_init Normalize_text \<lparr>bind_name = ''postgresql''\<rparr>
       (Some ''Tablespoon'') food_blank)) \<and>
   list_all (name_matches RecipeIngredientModel_tablename ing_raw_fields)
     (ing_table_args (RecipeIngredientModel_init Normalize_text \<lparr>bind_name = ''postgresql''\<rparr>
       (Some ''Minced'') None ing_blank))"
  using table_args_function_of_capability
    [where s = "\<lparr>bind_name = ''postgresql''\<rparr>" and s' = "\<lparr>bind_name = ''postgresql''\<rparr>"
      and nf = Normalize_text and nf' = id
      and name = "Some ''Tablespoon''" and name' = None
      and abbr = "Some ''Tbsp''" and abbr' = None
      and u = unit_blank and u' = "unit_blank\<lparr>unit_description := Some ''spoon''\<rparr>"
      and f = food_blank and f' = food_blank
      and nt = "Some ''Minced''" and nt' = None
      and ot = None and ot' = None
      and l = ing_blank and l' = ing_blank]
  by blast

text \<open>
  C7. The constructors of a unit and of a food put the uniqueness constraint on
  \<^verbatim>\<open>(name, group_id)\<close>, and no other, into the \<^verbatim>\<open>__table_args__\<close> of the instance,
  on every session, whatever the engine is; the table arguments of the class hold no
  uniqueness constraint. Two units built by the constructor with the same name in the
  same group each carry the constraint, and the commit of the two, under the table
  arguments of the class, is accepted.
\<close>

theorem name_group_constraint_on_instance_only:
  "filter is_unique_constraint
     (unit_table_args (IngredientUnitModel_init nf session name abbr self))
     = [UniqueConstraint [''name'', ''group_id''] ''ingredient_units_name_group_id_key''] \<and>
   filter is_unique_constraint
     (food_table_args (IngredientFoodModel_init nf session name fself))
     = [UniqueConstraint [''name'', ''group_id''] ''ingredient_foods_name_group_id_key''] \<and>
   filter is_unique_constraint IngredientUnitModel_class_table_args = [] \<and>
   commit_units IngredientUnitModel_class_table_args
     [IngredientUnitModel_init nf session (Some ''Tablespoon'') None
        (unit_blank\<lparr>unit_group_id := Some 1, unit_name := Some ''Tablespoon''\<rparr>),
      IngredientUnitModel_init nf session (Some ''Tablespoon'') None
        (unit_blank\<lparr>unit_group_id := Some 1, unit_name := Some ''Tablespoon'',
           unit_description := Some ''a second one''\<rparr>)]
     = Inr
     [IngredientUnitModel_init nf session (Some ''Tablespoon'') None
        (unit_blank\<lparr>unit_group_id := Some 1, unit_name := Some ''Tablespoon''\<rparr>),
      IngredientUnitModel_init nf session (Some ''Tablespoon'') None
        (unit_blank\<lparr>unit_group_id := Some 1, unit_name := Some ''Tablespoon'',
           unit_description := Some ''a second one''\<rparr>)]"
  by (simp add: unit_table_args_eq food_table_args_eq commit_units_def
      IngredientUnitModel_class_table_args_def)

end
